theory Spec2Isabelle
  imports Complex_Main "HOL-Library.Sublist"
begin

section \<open>Python values and exceptions\<close>

text \<open>
  The values \<^verbatim>\<open>response.json()\<close> can produce, which are also the values stored in
  the dictionary \<^verbatim>\<open>get_weather\<close> returns: \<^verbatim>\<open>None\<close>, booleans, integers, floats,
  strings, lists and dictionaries with string keys. A dictionary is an association
  list read with \<open>map_of\<close>. A float is carried as the number it denotes: the program
  never computes with one, it only passes it on.
\<close>

datatype pyval =
    PNone
  | PBool bool
  | PInt int
  | PFloat real
  | PStr string
  | PList "pyval list"
  | PDict "(string \<times> pyval) list"

type_synonym pydict = "(string \<times> pyval) list"

text \<open>
  The exceptions that can arise inside \<^verbatim>\<open>get_weather\<close> after the request. A computation
  that may raise returns \<open>Inl\<close> of the exception, \<open>Inr\<close> of its value otherwise.
  \<open>ValueError\<close> stands for the class with its subclasses (the JSON decoder's error
  among them), which is what an \<^verbatim>\<open>except ValueError\<close> clause catches; the other
  exceptions are not in that class.
\<close>

datatype exn =
  AttributeError | KeyError | TypeError | IndexError | ValueError | RecursionError

definition bind_exn :: "exn + 'a \<Rightarrow> ('a \<Rightarrow> exn + 'b) \<Rightarrow> exn + 'b" where
  "bind_exn m f = (case m of Inl e \<Rightarrow> Inl e | Inr v \<Rightarrow> f v)"

text \<open>
  \<^verbatim>\<open>d.get(key, default)\<close> on a dictionary: the value stored under the key, whatever
  it is (\<^verbatim>\<open>None\<close> included), and the default only when the key is not there.
\<close>

definition dict_get :: "pydict \<Rightarrow> string \<Rightarrow> pyval \<Rightarrow> pyval" where
  "dict_get d k dflt = (case map_of d k of Some v \<Rightarrow> v | None \<Rightarrow> dflt)"

text \<open>
  \<^verbatim>\<open>obj.get(key, default)\<close> on any value: only a dictionary has the method; on every
  other value the attribute lookup raises \<^verbatim>\<open>AttributeError\<close>.
\<close>

definition py_get :: "pyval \<Rightarrow> string \<Rightarrow> pyval \<Rightarrow> exn + pyval" where
  "py_get obj k dflt =
     (case obj of
        PDict d \<Rightarrow> Inr (dict_get d k dflt)
      | _ \<Rightarrow> Inl AttributeError)"

text \<open>Truth value of an object, as the conditional expression tests it.\<close>

fun truthy :: "pyval \<Rightarrow> bool" where
  "truthy PNone = False"
| "truthy (PBool b) = b"
| "truthy (PInt n) = (n \<noteq> 0)"
| "truthy (PFloat x) = (x \<noteq> 0)"
| "truthy (PStr s) = (s \<noteq> [])"
| "truthy (PList xs) = (xs \<noteq> [])"
| "truthy (PDict d) = (d \<noteq> [])"

text \<open>
  \<^verbatim>\<open>obj[0]\<close>: the first element of a list, the first character of a string,
  \<^verbatim>\<open>IndexError\<close> when either is empty; \<^verbatim>\<open>KeyError\<close> on a dictionary decoded from
  JSON, whose keys are all strings; \<^verbatim>\<open>TypeError\<close> on every other value.
\<close>

fun getitem0 :: "pyval \<Rightarrow> exn + pyval" where
  "getitem0 (PList xs) = (case xs of [] \<Rightarrow> Inl IndexError | x # _ \<Rightarrow> Inr x)"
| "getitem0 (PStr s) = (case s of [] \<Rightarrow> Inl IndexError | c # _ \<Rightarrow> Inr (PStr [c]))"
| "getitem0 (PDict d) = Inl KeyError"
| "getitem0 _ = Inl TypeError"

subsection \<open>Formatting inside an f-string\<close>

fun str_nat :: "nat \<Rightarrow> string" where
  "str_nat n =
     (if n < 10 then [''0123456789'' ! n]
      else str_nat (n div 10) @ [''0123456789'' ! (n mod 10)])"

definition str_int :: "int \<Rightarrow> string" where
  "str_int i = (if i < 0 then ''-'' @ str_nat (nat (- i)) else str_nat (nat i))"

text \<open>
  \<^verbatim>\<open>{x}\<close> in an f-string is \<^verbatim>\<open>str(x)\<close>: a string is inserted as it is, \<^verbatim>\<open>None\<close>,
  booleans and integers by their literals. For floats, lists and dictionaries
  \<^verbatim>\<open>str\<close> is the interpreter's \<^verbatim>\<open>repr\<close>, which is not part of the repository and is
  taken as the parameter \<open>rp\<close>.
\<close>

fun py_str :: "(pyval \<Rightarrow> string) \<Rightarrow> pyval \<Rightarrow> string" where
  "py_str rp (PStr s) = s"
| "py_str rp PNone = ''None''"
| "py_str rp (PBool b) = (if b then ''True'' else ''False'')"
| "py_str rp (PInt n) = str_int n"
| "py_str rp v = rp v"

section \<open>The HTTP exchange\<close>

text \<open>
  A response as \<^verbatim>\<open>get_weather\<close> reads it: its status code, and what the call
  \<^verbatim>\<open>response.json()\<close> does. It returns the decoded value, or it raises: \<^verbatim>\<open>ValueError\<close>
  when the decoder rejects the body, and \<^verbatim>\<open>RecursionError\<close> when the body nests lists
  or objects deeper than the interpreter's recursion limit, whether or not it is JSON.
\<close>

record response =
  status_code :: int
  json :: "exn + pyval"

text \<open>
  What one call of \<^verbatim>\<open>requests.get\<close> does: it raises a
  \<^verbatim>\<open>requests.exceptions.RequestException\<close>, carried here by its text \<^verbatim>\<open>str(e)\<close>, or it
  returns a response.
\<close>

datatype outcome = RequestException string | Response response

record request =
  url :: string
  params :: "(string \<times> string option) list"
  timeout :: nat

text \<open>
  The network is explicit state: \<open>outcomes w n\<close> is what the \<open>n\<close>-th call of
  \<^verbatim>\<open>requests.get\<close> meets, and \<open>sent w\<close> lists the requests made so far, oldest first.
\<close>

record world =
  outcomes :: "nat \<Rightarrow> outcome"
  sent :: "request list"

definition next_outcome :: "world \<Rightarrow> outcome" where
  "next_outcome w = outcomes w (length (sent w))"

definition requests_get ::
  "string \<Rightarrow> (string \<times> string option) list \<Rightarrow> nat \<Rightarrow> world \<Rightarrow> outcome \<times> world" where
  "requests_get u ps t w =
     (next_outcome w, w\<lparr>sent := sent w @ [\<lparr>url = u, params = ps, timeout = t\<rparr>]\<rparr>)"

section \<open>The lookup\<close>

definition BASE_URL :: string where
  "BASE_URL = ''http://api.openweathermap.org/data/2.5/weather''"

text \<open>
  \<^verbatim>\<open>get_weather(city_name)\<close>. \<open>API_KEY\<close> is the module's global, \<open>None\<close> when the
  environment variable is not set. The result is the exception that escapes the
  function or the dictionary it returns, together with the network afterwards. Each
  of the two \<^verbatim>\<open>try\<close> blocks around \<^verbatim>\<open>response.json()\<close> has the single clause
  \<^verbatim>\<open>except ValueError\<close>: an exception of any other class passes through it.
\<close>

definition get_weather ::
  "(pyval \<Rightarrow> string) \<Rightarrow> string option \<Rightarrow> string \<Rightarrow> world \<Rightarrow> (exn + pydict) \<times> world" where
  "get_weather rp API_KEY city_name w =
     (let params = [(''q'', Some city_name), (''appid'', API_KEY), (''units'', Some ''metric'')];
          (got, w') = requests_get BASE_URL params 10 w
      in
        (case got of
           RequestException e \<Rightarrow>
             Inr [(''error'', PStr (''Network error: '' @ e))]
         | Response response \<Rightarrow>
             if status_code response \<noteq> 200 then
               bind_exn
                 (case json response of
                    Inr error_data \<Rightarrow> py_get error_data ''message'' (PStr ''Unknown error'')
                  | Inl e \<Rightarrow>
                      if e = ValueError then Inr (PStr ''Invalid response from server'')
                      else Inl e)
                 (\<lambda>message.
                    if status_code response = 401 then
                      Inr [(''error'', PStr (''Invalid API key: '' @ py_str rp message))]
                    else if status_code response = 404 then
                      Inr [(''error'', PStr (''City not found: '' @ city_name))]
                    else
                      Inr [(''error'',
                            PStr (''API request failed with status ''
                                  @ str_int (status_code response) @ '': ''
                                  @ py_str rp message))])
             else
               (case json response of
                  Inl e \<Rightarrow>
                    if e = ValueError then
                      Inr [(''error'', PStr ''Failed to decode JSON response'')]
                    else Inl e
                | Inr data \<Rightarrow>
                    bind_exn (py_get data ''main'' (PDict [])) (\<lambda>main.
                    bind_exn (py_get data ''weather'' (PList [])) (\<lambda>weather_list.
                    bind_exn (py_get data ''wind'' (PDict [])) (\<lambda>wind.
                    bind_exn (py_get main ''temp'' PNone) (\<lambda>temperature.
                    bind_exn (py_get main ''pressure'' PNone) (\<lambda>pressure.
                    bind_exn (py_get main ''humidity'' PNone) (\<lambda>humidity.
                    bind_exn
                      (if truthy weather_list then
                         bind_exn (getitem0 weather_list)
                           (\<lambda>first. py_get first ''description'' PNone)
                       else Inr PNone) (\<lambda>description.
                    bind_exn (py_get wind ''speed'' PNone) (\<lambda>wind_speed.
                    bind_exn (py_get data ''name'' (PStr city_name)) (\<lambda>city.
                      Inr [(''city'', city),
                           (''temperature'', temperature),
                           (''pressure'', pressure),
                           (''humidity'', humidity),
                           (''description'', description),
                           (''wind_speed'', wind_speed)])))))))))),
         w'))"

section \<open>Fixtures and the vocabulary of the properties\<close>

text \<open>
  A network that answers every call with the same outcome and has sent nothing yet:
  the simulated response or transport failure of a test.
\<close>

definition simulated :: "outcome \<Rightarrow> world" where
  "simulated x = \<lparr>outcomes = (\<lambda>_. x), sent = []\<rparr>"

text \<open>The body of the specification's example, as \<^verbatim>\<open>response.json()\<close> decodes it.\<close>

definition london_body :: pyval where
  "london_body =
     PDict [(''name'', PStr ''London''),
            (''main'', PDict [(''temp'', PFloat 15.2), (''pressure'', PInt 1012),
                              (''humidity'', PInt 70)]),
            (''weather'', PList [PDict [(''description'', PStr ''clear sky'')]]),
            (''wind'', PDict [(''speed'', PFloat 3.1)])]"

text \<open>
  The two variants of a result, told apart by the keys of the returned dictionary;
  \<^verbatim>\<open>print_weather_report\<close> tests \<^verbatim>\<open>"error" in result\<close>.
\<close>

definition is_Failure :: "pydict \<Rightarrow> bool" where
  "is_Failure res = (set (map fst res) = {''error''})"

definition is_Success :: "pydict \<Rightarrow> bool" where
  "is_Success res =
     (set (map fst res)
      = {''city'', ''temperature'', ''pressure'', ''humidity'', ''description'', ''wind_speed''})"

text \<open>
  The message of an error body, where there is one: the fallback literal when decoding
  raises \<^verbatim>\<open>ValueError\<close>, the \<^verbatim>\<open>message\<close> entry or its default for a JSON object, and
  none when decoding raises anything else or gives any other JSON value.
\<close>

fun server_message :: "exn + pyval \<Rightarrow> pyval option" where
  "server_message (Inl e) =
     (if e = ValueError then Some (PStr ''Invalid response from server'') else None)"
| "server_message (Inr (PDict d)) = Some (dict_get d ''message'' (PStr ''Unknown error''))"
| "server_message (Inr _) = None"

text \<open>
  The payloads of a 200 response the extraction goes through: \<^verbatim>\<open>main\<close> and \<^verbatim>\<open>wind\<close> are
  dictionaries where present, and \<^verbatim>\<open>weather\<close> is false as a condition or a list that starts
  with a dictionary.
\<close>

fun is_dict :: "pyval \<Rightarrow> bool" where
  "is_dict (PDict d) = True"
| "is_dict _ = False"

fun describable :: "pyval \<Rightarrow> bool" where
  "describable (PList (PDict m # rest)) = True"
| "describable v = (\<not> truthy v)"

definition typed_payload :: "pydict \<Rightarrow> bool" where
  "typed_payload d =
     (is_dict (dict_get d ''main'' (PDict []))
      \<and> describable (dict_get d ''weather'' (PList []))
      \<and> is_dict (dict_get d ''wind'' (PDict [])))"

text \<open>What the extraction reads from such a payload.\<close>

fun field_of :: "pyval \<Rightarrow> string \<Rightarrow> pyval" where
  "field_of (PDict m) k = dict_get m k PNone"
| "field_of _ k = PNone"

fun first_description :: "pyval \<Rightarrow> pyval" where
  "first_description (PList (PDict m # rest)) = dict_get m ''description'' PNone"
| "first_description _ = PNone"

definition report :: "string \<Rightarrow> pydict \<Rightarrow> pydict" where
  "report city_name d =
     [(''city'', dict_get d ''name'' (PStr city_name)),
      (''temperature'', field_of (dict_get d ''main'' (PDict [])) ''temp''),
      (''pressure'', field_of (dict_get d ''main'' (PDict [])) ''pressure''),
      (''humidity'', field_of (dict_get d ''main'' (PDict [])) ''humidity''),
      (''description'', first_description (dict_get d ''weather'' (PList []))),
      (''wind_speed'', field_of (dict_get d ''wind'' (PDict [])) ''speed'')]"

text \<open>
  The outcomes of the request on which an exception leaves \<^verbatim>\<open>get_weather\<close>: a body on
  which decoding raises something that is not a \<^verbatim>\<open>ValueError\<close>, a body that decodes to
  something other than a JSON object, whatever the status, and with status 200 a JSON
  object whose payload is not typed as above.
\<close>

fun raising :: "outcome \<Rightarrow> bool" where
  "raising (RequestException e) = False"
| "raising (Response r) =
     (case json r of
        Inl e \<Rightarrow> e \<noteq> ValueError
      | Inr (PDict d) \<Rightarrow> status_code r = 200 \<and> \<not> typed_payload d
      | Inr _ \<Rightarrow> True)"

section \<open>Reading values\<close>

lemma py_get_dict: "py_get (PDict d) k dflt = Inr (dict_get d k dflt)"
  by (simp add: py_get_def)

lemma py_get_other: "\<not> is_dict v \<Longrightarrow> py_get v k dflt = Inl AttributeError"
  by (cases v) (simp_all add: py_get_def)

lemma field_of_get: "is_dict v \<Longrightarrow> py_get v k PNone = Inr (field_of v k)"
  by (cases v) (simp_all add: py_get_def)

lemma bind_exn_Inr: "bind_exn (Inr v) f = f v"
  by (simp add: bind_exn_def)

lemma bind_exn_Inl: "bind_exn (Inl e) f = Inl e"
  by (simp add: bind_exn_def)

text \<open>The conditional expression that computes \<^verbatim>\<open>description\<close>.\<close>

lemma describable_list:
  "describable (PList xs) = (case xs of [] \<Rightarrow> True | x # rest \<Rightarrow> is_dict x)"
proof (cases xs)
  case Nil
  then show ?thesis by simp
next
  case (Cons x rest)
  then show ?thesis by (cases x) simp_all
qed

lemma description_of_describable:
  assumes "describable v"
  shows "(if truthy v
          then bind_exn (getitem0 v) (\<lambda>first. py_get first ''description'' PNone)
          else Inr PNone) = Inr (first_description v)"
proof (cases "truthy v")
  case False
  then show ?thesis by (cases v) (auto split: list.splits)
next
  case True
  with assms obtain m rest where "v = PList (PDict m # rest)"
    by (cases v rule: describable.cases) auto
  then show ?thesis by (simp add: bind_exn_def py_get_def)
qed

lemma description_of_other:
  assumes "\<not> describable v"
  shows "\<exists>e. (if truthy v
          then bind_exn (getitem0 v) (\<lambda>first. py_get first ''description'' PNone)
          else Inr PNone) = Inl e"
proof (cases v)
  case (PList xs)
  with assms obtain x rest where xs: "xs = x # rest" and "\<not> is_dict x"
    by (auto simp: describable_list split: list.splits)
  then show ?thesis using PList by (simp add: bind_exn_def py_get_other)
next
  case (PStr s)
  with assms obtain c cs where "s = c # cs" by (cases s) auto
  then show ?thesis using PStr by (simp add: bind_exn_def py_get_def)
qed (use assms in \<open>auto simp: bind_exn_def\<close>)


section \<open>One request per call\<close>

lemma get_weather_sends_one_request:
  "snd (get_weather rp API_KEY city_name w) =
     w\<lparr>sent := sent w @ [\<lparr>url = BASE_URL,
                           params = [(''q'', Some city_name), (''appid'', API_KEY),
                                     (''units'', Some ''metric'')],
                           timeout = 10\<rparr>]\<rparr>"
  by (simp add: get_weather_def requests_get_def)

section \<open>Responses other than 200\<close>

lemma non_200_result:
  assumes "next_outcome w = Response r" and "status_code r \<noteq> 200"
    and "server_message (json r) = Some m"
  shows "fst (get_weather rp API_KEY city_name w) =
           Inr [(''error'',
                 PStr (if status_code r = 401 then ''Invalid API key: '' @ py_str rp m
                       else if status_code r = 404 then ''City not found: '' @ city_name
                       else ''API request failed with status '' @ str_int (status_code r)
                            @ '': '' @ py_str rp m))]"
proof (cases "json r")
  case (Inl e)
  with assms(3) have "e = ValueError" and "m = PStr ''Invalid response from server''"
    by (auto split: if_splits)
  with assms Inl show ?thesis
    by (simp add: get_weather_def requests_get_def bind_exn_def)
next
  case (Inr v)
  with assms(3) obtain d where "v = PDict d" and "m = dict_get d ''message'' (PStr ''Unknown error'')"
    by (cases v) auto
  with assms Inr show ?thesis
    by (simp add: get_weather_def requests_get_def bind_exn_def py_get_def)
qed

lemma non_200_non_object_raises:
  assumes "next_outcome w = Response r" and "status_code r \<noteq> 200"
    and "json r = Inr v" and "\<not> is_dict v"
  shows "fst (get_weather rp API_KEY city_name w) = Inl AttributeError"
  using assms
  by (simp add: get_weather_def requests_get_def bind_exn_def py_get_other)

text \<open>
  An exception of \<^verbatim>\<open>response.json()\<close> that is not a \<^verbatim>\<open>ValueError\<close> leaves
  \<^verbatim>\<open>get_weather\<close>, whatever the status code.
\<close>

lemma uncaught_decoding_raises:
  assumes "next_outcome w = Response r" and "json r = Inl e" and "e \<noteq> ValueError"
  shows "fst (get_weather rp API_KEY city_name w) = Inl e"
  using assms
  by (simp add: get_weather_def requests_get_def bind_exn_def)

lemma server_message_None_iff:
  "server_message j = None
   \<longleftrightarrow> (\<exists>e. j = Inl e \<and> e \<noteq> ValueError) \<or> (\<exists>v. j = Inr v \<and> \<not> is_dict v)"
  by (cases j rule: server_message.cases) auto

lemma non_200_without_message_raises:
  assumes "next_outcome w = Response r" and "status_code r \<noteq> 200"
    and "server_message (json r) = None"
  shows "\<exists>e. fst (get_weather rp API_KEY city_name w) = Inl e"
proof -
  from assms(3) consider e where "json r = Inl e" and "e \<noteq> ValueError"
    | v where "json r = Inr v" and "\<not> is_dict v"
    by (auto simp: server_message_None_iff)
  then show ?thesis
  proof cases
    case 1
    then show ?thesis using uncaught_decoding_raises [OF assms(1)] by blast
  next
    case 2
    then show ?thesis using non_200_non_object_raises [OF assms(1,2)] by blast
  qed
qed

lemma status_401_result:
  assumes "next_outcome w = Response r" and "status_code r = 401"
    and "server_message (json r) = Some m"
  shows "fst (get_weather rp API_KEY city_name w)
         = Inr [(''error'', PStr (''Invalid API key: '' @ py_str rp m))]
         \<and> sublist ''Invalid API key'' (''Invalid API key: '' @ py_str rp m)"
proof -
  have "sublist ''Invalid API key'' (''Invalid API key'' @ ('': '' @ py_str rp m))"
    by (rule sublist_append_rightI)
  then have "sublist ''Invalid API key'' (''Invalid API key: '' @ py_str rp m)" by simp
  moreover from assms(2) have "status_code r \<noteq> 200" by simp
  from non_200_result [OF assms(1) this assms(3), of rp API_KEY city_name] assms(2)
  have "fst (get_weather rp API_KEY city_name w)
         = Inr [(''error'', PStr (''Invalid API key: '' @ py_str rp m))]" by simp
  ultimately show ?thesis by blast
qed

lemma status_404_result:
  assumes "next_outcome w = Response r" and "status_code r = 404"
    and "server_message (json r) = Some m"
  shows "fst (get_weather rp API_KEY city_name w)
         = Inr [(''error'', PStr (''City not found: '' @ city_name))]
         \<and> sublist ''City not found'' (''City not found: '' @ city_name)
         \<and> sublist city_name (''City not found: '' @ city_name)"
proof -
  have "sublist ''City not found'' (''City not found'' @ ('': '' @ city_name))"
    by (rule sublist_append_rightI)
  then have "sublist ''City not found'' (''City not found: '' @ city_name)" by simp
  moreover have "sublist city_name (''City not found: '' @ city_name)"
    by (rule sublist_append_leftI)
  moreover from assms(2) have "status_code r \<noteq> 200" by simp
  from non_200_result [OF assms(1) this assms(3), of rp API_KEY city_name] assms(2)
  have "fst (get_weather rp API_KEY city_name w)
         = Inr [(''error'', PStr (''City not found: '' @ city_name))]" by simp
  ultimately show ?thesis by blast
qed

lemma other_status_result:
  assumes "next_outcome w = Response r"
    and "status_code r \<noteq> 200" and "status_code r \<noteq> 401" and "status_code r \<noteq> 404"
    and "server_message (json r) = Some m"
  shows "fst (get_weather rp API_KEY city_name w)
         = Inr [(''error'',
                 PStr (''API request failed with status '' @ str_int (status_code r)
                       @ '': '' @ py_str rp m))]"
  using non_200_result [OF assms(1,2,5), of rp API_KEY city_name] assms(3,4) by simp

lemma server_message_cases:
  "server_message (Inl ValueError) = Some (PStr ''Invalid response from server'')"
  "map_of d ''message'' = None \<Longrightarrow> server_message (Inr (PDict d)) = Some (PStr ''Unknown error'')"
  "map_of d ''message'' = Some m \<Longrightarrow> server_message (Inr (PDict d)) = Some m"
  by (simp_all add: dict_get_def)

section \<open>Responses with status 200\<close>

lemma value_error_200_fails:
  assumes "next_outcome w = Response r" and "status_code r = 200"
    and "json r = Inl ValueError"
  shows "fst (get_weather rp API_KEY city_name w)
         = Inr [(''error'', PStr ''Failed to decode JSON response'')]"
  using assms by (simp add: get_weather_def requests_get_def)

lemma non_object_200_raises:
  assumes "next_outcome w = Response r" and "status_code r = 200"
    and "json r = Inr v" and "\<not> is_dict v"
  shows "fst (get_weather rp API_KEY city_name w) = Inl AttributeError"
  using assms
  by (simp add: get_weather_def requests_get_def bind_exn_def py_get_other)

lemma typed_payload_report:
  assumes "next_outcome w = Response r" and "status_code r = 200"
    and "json r = Inr (PDict d)" and "typed_payload d"
  shows "fst (get_weather rp API_KEY city_name w) = Inr (report city_name d)"
proof -
  from assms(4) have m: "is_dict (dict_get d ''main'' (PDict []))"
    and wl: "describable (dict_get d ''weather'' (PList []))"
    and wi: "is_dict (dict_get d ''wind'' (PDict []))"
    by (simp_all add: typed_payload_def)
  show ?thesis
    using assms(1-3)
    by (simp add: get_weather_def requests_get_def py_get_dict bind_exn_Inr
        field_of_get [OF m] field_of_get [OF wi] description_of_describable [OF wl]
        report_def)
qed

lemma untyped_payload_raises:
  assumes "next_outcome w = Response r" and "status_code r = 200"
    and "json r = Inr (PDict d)" and "\<not> typed_payload d"
  shows "\<exists>e. fst (get_weather rp API_KEY city_name w) = Inl e"
proof (cases "is_dict (dict_get d ''main'' (PDict []))")
  case False
  with assms(1-3) show ?thesis
    by (simp add: get_weather_def requests_get_def py_get_dict bind_exn_Inr
        py_get_other bind_exn_Inl)
next
  case m: True
  show ?thesis
  proof (cases "describable (dict_get d ''weather'' (PList []))")
    case False
    from description_of_other [OF this] obtain e where
      "(if truthy (dict_get d ''weather'' (PList []))
        then bind_exn (getitem0 (dict_get d ''weather'' (PList [])))
               (\<lambda>first. py_get first ''description'' PNone)
        else Inr PNone) = Inl e" ..
    with assms(1-3) show ?thesis
      by (simp add: get_weather_def requests_get_def py_get_dict bind_exn_Inr
          field_of_get [OF m] bind_exn_Inl)
  next
    case wl: True
    with m assms(4) have "\<not> is_dict (dict_get d ''wind'' (PDict []))"
      by (simp add: typed_payload_def)
    with assms(1-3) show ?thesis
      by (simp add: get_weather_def requests_get_def py_get_dict bind_exn_Inr
          field_of_get [OF m] description_of_describable [OF wl] py_get_other bind_exn_Inl)
  qed
qed


section \<open>The returned dictionary\<close>

lemma report_is_Success: "is_Success (report city_name d) \<and> \<not> is_Failure (report city_name d)"
  by (auto simp: is_Success_def is_Failure_def report_def)

lemma error_is_Failure: "is_Failure [(''error'', v)] \<and> \<not> is_Success [(''error'', v)]"
  by (auto simp: is_Success_def is_Failure_def)

lemma returned_dict_is_one_variant:
  assumes "fst (get_weather rp API_KEY city_name w) = Inr res"
  shows "is_Failure res \<noteq> is_Success res"
proof (cases "next_outcome w")
  case (RequestException e)
  with assms have "res = [(''error'', PStr (''Network error: '' @ e))]"
    by (simp add: get_weather_def requests_get_def)
  then show ?thesis using error_is_Failure by blast
next
  case (Response r)
  show ?thesis
  proof (cases "status_code r = 200")
    case False
    show ?thesis
    proof (cases "server_message (json r)")
      case None
      have "\<exists>e. fst (get_weather rp API_KEY city_name w) = Inl e"
        by (rule non_200_without_message_raises [OF Response False None])
      with assms show ?thesis by auto
    next
      case (Some m)
      from non_200_result [OF Response False Some] assms
      obtain v where "res = [(''error'', v)]" by auto
      then show ?thesis using error_is_Failure by blast
    qed
  next
    case ok: True
    show ?thesis
    proof (cases "json r")
      case (Inl e)
      show ?thesis
      proof (cases "e = ValueError")
        case True
        from value_error_200_fails [OF Response ok Inl [unfolded True]] assms
        have "res = [(''error'', PStr ''Failed to decode JSON response'')]" by simp
        then show ?thesis using error_is_Failure by blast
      next
        case False
        from uncaught_decoding_raises [OF Response Inl False] assms
        show ?thesis by simp
      qed
    next
      case (Inr v)
      show ?thesis
      proof (cases v)
        case (PDict d)
        show ?thesis
        proof (cases "typed_payload d")
          case True
          from typed_payload_report [OF Response ok Inr [unfolded PDict] True] assms
          have "res = report city_name d" by simp
          then show ?thesis using report_is_Success by blast
        next
          case False
          have "\<exists>e. fst (get_weather rp API_KEY city_name w) = Inl e"
            by (rule untyped_payload_raises [OF Response ok Inr [unfolded PDict] False])
          with assms show ?thesis by auto
        qed
      qed (use non_object_200_raises [OF Response ok Inr] assms in auto)
    qed
  qed
qed

lemma returned_error_key_iff_Failure:
  assumes "fst (get_weather rp API_KEY city_name w) = Inr res"
  shows "(''error'' \<in> set (map fst res)) = is_Failure res"
proof (cases "is_Failure res")
  case True
  then show ?thesis by (simp add: is_Failure_def)
next
  case False
  with returned_dict_is_one_variant [OF assms] have "is_Success res" by simp
  with False show ?thesis by (simp add: is_Success_def)
qed

section \<open>When an exception escapes\<close>

lemma get_weather_raises_iff:
  "(\<exists>e. fst (get_weather rp API_KEY city_name w) = Inl e) \<longleftrightarrow> raising (next_outcome w)"
proof (cases "next_outcome w")
  case (RequestException e)
  then show ?thesis by (simp add: get_weather_def requests_get_def)
next
  case (Response r)
  show ?thesis
  proof (cases "json r")
    case (Inl e)
    show ?thesis
    proof (cases "e = ValueError")
      case False
      from uncaught_decoding_raises [OF Response Inl False, of rp API_KEY city_name]
      show ?thesis using Response Inl False by simp
    next
      case caught: True
      show ?thesis
      proof (cases "status_code r = 200")
        case True
        from value_error_200_fails [OF Response True Inl [unfolded caught], of rp API_KEY city_name]
        show ?thesis using Response Inl caught by simp
      next
        case False
        from Inl caught
        have "server_message (json r) = Some (PStr ''Invalid response from server'')"
          by simp
        from non_200_result [OF Response False this, of rp API_KEY city_name]
        show ?thesis using Response Inl caught by simp
      qed
    qed
  next
    case (Inr v)
    show ?thesis
    proof (cases "is_dict v")
      case False
      have "fst (get_weather rp API_KEY city_name w) = Inl AttributeError"
      proof (cases "status_code r = 200")
        case True
        then show ?thesis by (rule non_object_200_raises [OF Response _ Inr False])
      next
        case ne: False
        show ?thesis by (rule non_200_non_object_raises [OF Response ne Inr False])
      qed
      moreover from Inr False have "raising (Response r)" by (cases v) simp_all
      ultimately show ?thesis using Response by simp
    next
      case True
      then obtain d where v: "v = PDict d" by (cases v) simp_all
      show ?thesis
      proof (cases "status_code r = 200")
        case ne: False
        from Inr v have "server_message (json r)
                          = Some (dict_get d ''message'' (PStr ''Unknown error''))" by simp
        from non_200_result [OF Response ne this, of rp API_KEY city_name]
        show ?thesis using Response Inr v ne by simp
      next
        case ok: True
        show ?thesis
        proof (cases "typed_payload d")
          case True
          from typed_payload_report [OF Response ok Inr [unfolded v] True, of rp API_KEY city_name]
          show ?thesis using Response Inr v ok True by simp
        next
          case False
          have "\<exists>e. fst (get_weather rp API_KEY city_name w) = Inl e"
            by (rule untyped_payload_raises [OF Response ok Inr [unfolded v] False])
          then show ?thesis using Response Inr v ok False by simp
        qed
      qed
    qed
  qed
qed

lemma get_weather_returns_iff:
  "(\<exists>res. fst (get_weather rp API_KEY city_name w) = Inr res) \<longleftrightarrow> \<not> raising (next_outcome w)"
proof -
  have "(\<exists>res. fst (get_weather rp API_KEY city_name w) = Inr res)
        \<longleftrightarrow> \<not> (\<exists>e. fst (get_weather rp API_KEY city_name w) = Inl e)"
    by (cases "fst (get_weather rp API_KEY city_name w)") auto
  then show ?thesis by (simp only: get_weather_raises_iff)
qed

section \<open>What the report holds\<close>

lemma report_city:
  "map_of (report city_name d) ''city''
   = Some (case map_of d ''name'' of None \<Rightarrow> PStr city_name | Some v \<Rightarrow> v)"
  by (simp add: report_def dict_get_def split: option.splits)

lemma report_without_main:
  assumes "map_of d ''main'' = None"
  shows "map_of (report city_name d) ''temperature'' = Some PNone
         \<and> map_of (report city_name d) ''pressure'' = Some PNone
         \<and> map_of (report city_name d) ''humidity'' = Some PNone"
  using assms by (simp add: report_def dict_get_def)

lemma report_without_weather:
  assumes "map_of d ''weather'' = None \<or> map_of d ''weather'' = Some (PList [])"
  shows "map_of (report city_name d) ''description'' = Some PNone"
  using assms by (auto simp: report_def dict_get_def)

lemma report_without_wind:
  assumes "map_of d ''wind'' = None"
  shows "map_of (report city_name d) ''wind_speed'' = Some PNone"
  using assms by (simp add: report_def dict_get_def)

lemma field_of_absent: "map_of m k = None \<Longrightarrow> field_of (PDict m) k = PNone"
  by (simp add: dict_get_def)

lemma empty_object_report:
  "typed_payload [] \<and>
   report city_name [] =
     [(''city'', PStr city_name), (''temperature'', PNone), (''pressure'', PNone),
      (''humidity'', PNone), (''description'', PNone), (''wind_speed'', PNone)]"
  by (simp add: typed_payload_def report_def dict_get_def)


section \<open>The documented return value\<close>

text \<open>
  C1. The function is documented to return a dictionary, with the weather or with an
  error, for whatever answer it gets. The code does not: for a response with status
  500 whose body is the JSON string \<^verbatim>\<open>"Internal Server Error"\<close>, \<^verbatim>\<open>response.json()\<close>
  succeeds, \<^verbatim>\<open>error_data.get\<close> is looked up on a string, and the \<^verbatim>\<open>AttributeError\<close> is
  not a \<^verbatim>\<open>ValueError\<close>, so it leaves \<^verbatim>\<open>get_weather\<close> and no error message is produced.
\<close>

theorem json_string_error_body_raises:
  "fst (get_weather rp API_KEY ''London''
         (simulated (Response \<lparr>status_code = 500,
                               json = Inr (PStr ''Internal Server Error'')\<rparr>)))
   = Inl AttributeError"
  by (simp add: get_weather_def requests_get_def next_outcome_def simulated_def
      py_get_def bind_exn_def)

text \<open>
  C2. Every dictionary \<^verbatim>\<open>get_weather\<close> returns is one of the two variants and not the
  other (\<open>returned_dict_is_one_variant\<close>), but not every call returns one: for a
  response with status 200 whose body is the JSON array \<^verbatim>\<open>[]\<close>, \<^verbatim>\<open>data.get\<close> raises
  \<^verbatim>\<open>AttributeError\<close> and the call yields neither a Failure nor a Success.
\<close>

theorem array_body_200_returns_neither:
  "fst (get_weather rp API_KEY ''London''
         (simulated (Response \<lparr>status_code = 200, json = Inr (PList [])\<rparr>)))
   = Inl AttributeError
   \<and> (\<nexists>res. fst (get_weather rp API_KEY ''London''
                   (simulated (Response \<lparr>status_code = 200, json = Inr (PList [])\<rparr>)))
             = Inr res)"
  by (simp add: get_weather_def requests_get_def next_outcome_def simulated_def
      py_get_def bind_exn_def)

section \<open>The reference payload\<close>

text \<open>
  C3. For a response with status 200 whose body is the example payload of London,
  \<^verbatim>\<open>get_weather\<close> returns the Success with city London, temperature 15.2, pressure
  1012, humidity 70, description clear sky and wind speed 3.1, whatever city name it
  was called with.
\<close>

theorem london_report:
  assumes "next_outcome w = Response r" and "status_code r = 200"
    and "json r = Inr london_body"
  shows "fst (get_weather rp API_KEY city_name w)
         = Inr [(''city'', PStr ''London''),
                (''temperature'', PFloat 15.2),
                (''pressure'', PInt 1012),
                (''humidity'', PInt 70),
                (''description'', PStr ''clear sky''),
                (''wind_speed'', PFloat 3.1)]"
  using assms
  by (simp add: get_weather_def requests_get_def london_body_def py_get_def dict_get_def
      bind_exn_def)

theorem london_report_witness:
  "next_outcome (simulated (Response \<lparr>status_code = 200, json = Inr london_body\<rparr>))
     = Response \<lparr>status_code = 200, json = Inr london_body\<rparr>
   \<and> fst (get_weather (\<lambda>v. []) (Some ''key'') ''london''
            (simulated (Response \<lparr>status_code = 200, json = Inr london_body\<rparr>)))
     = Inr [(''city'', PStr ''London''),
            (''temperature'', PFloat 15.2),
            (''pressure'', PInt 1012),
            (''humidity'', PInt 70),
            (''description'', PStr ''clear sky''),
            (''wind_speed'', PFloat 3.1)]"
  using london_report
    [of "simulated (Response \<lparr>status_code = 200, json = Inr london_body\<rparr>)"
        "\<lparr>status_code = 200, json = Inr london_body\<rparr>" "\<lambda>v. []" "Some ''key''" "''london''"]
  by (simp add: next_outcome_def simulated_def)

section \<open>Fields that are not there\<close>

text \<open>
  C4. The extraction is meant to give \<^verbatim>\<open>None\<close> for a field the payload does not have.
  It does so when the enclosing entry is missing or is a dictionary
  (\<open>typed_payload_report\<close>, \<open>report_without_main\<close>), but not for the JSON object
  \<^verbatim>\<open>{"main": null}\<close>: there is no temperature in it, \<^verbatim>\<open>data.get("main", {})\<close> gives
  \<^verbatim>\<open>None\<close> and not the default, and \<^verbatim>\<open>main.get\<close> raises \<^verbatim>\<open>AttributeError\<close> where a
  Success with temperature \<^verbatim>\<open>None\<close> was due.
\<close>

theorem null_main_raises:
  "fst (get_weather rp API_KEY ''London''
         (simulated (Response \<lparr>status_code = 200,
                               json = Inr (PDict [(''main'', PNone)])\<rparr>)))
   = Inl AttributeError"
  by (simp add: get_weather_def requests_get_def next_outcome_def simulated_def
      py_get_def dict_get_def bind_exn_def)

section \<open>Status codes\<close>

text \<open>
  C5. A response with status 401 is meant to give the Failure
  \<^verbatim>\<open>Invalid API key: \<close> and the server's message. With the body \<^verbatim>\<open>null\<close>, which is JSON
  and not an object, the message is never computed: \<^verbatim>\<open>error_data.get\<close> raises
  \<^verbatim>\<open>AttributeError\<close> before the status code is looked at. Where decoding the
  body raises \<^verbatim>\<open>ValueError\<close> or gives a JSON object, the Failure is returned
  (\<open>status_401_result\<close>).
\<close>

theorem status_401_null_body_raises:
  "fst (get_weather rp API_KEY ''London''
         (simulated (Response \<lparr>status_code = 401, json = Inr PNone\<rparr>)))
   = Inl AttributeError"
  by (simp add: get_weather_def requests_get_def next_outcome_def simulated_def
      py_get_def bind_exn_def)

text \<open>
  C6. A response with status 404 is meant to give the Failure \<^verbatim>\<open>City not found: \<close>
  and the city name, which needs nothing from the body. With the body \<^verbatim>\<open>[]\<close> the
  unused message is still computed first, and \<^verbatim>\<open>error_data.get\<close> raises
  \<^verbatim>\<open>AttributeError\<close>. Where decoding the body raises \<^verbatim>\<open>ValueError\<close> or gives a
  JSON object, the Failure is returned (\<open>status_404_result\<close>).
\<close>

theorem status_404_array_body_raises:
  "fst (get_weather rp API_KEY ''Atlantis''
         (simulated (Response \<lparr>status_code = 404, json = Inr (PList [])\<rparr>)))
   = Inl AttributeError"
  by (simp add: get_weather_def requests_get_def next_outcome_def simulated_def
      py_get_def bind_exn_def)

text \<open>
  C7. A response with any other status is meant to give the Failure
  \<^verbatim>\<open>API request failed with status\<close>, the code and the server's message. With status
  503 and the body \<^verbatim>\<open>"Service Unavailable"\<close>, a JSON string, \<^verbatim>\<open>error_data.get\<close> raises
  \<^verbatim>\<open>AttributeError\<close>. Where decoding the body raises \<^verbatim>\<open>ValueError\<close> or gives a
  JSON object, the Failure is returned, with the message \<open>server_message\<close> gives
  (\<open>other_status_result\<close>, \<open>server_message_cases\<close>).
\<close>

theorem status_503_string_body_raises:
  "fst (get_weather rp API_KEY ''London''
         (simulated (Response \<lparr>status_code = 503,
                               json = Inr (PStr ''Service Unavailable'')\<rparr>)))
   = Inl AttributeError"
  by (simp add: get_weather_def requests_get_def next_outcome_def simulated_def
      py_get_def bind_exn_def)

section \<open>Decoding and transport failures\<close>

text \<open>
  C8. A response with status 200 whose body is not JSON is meant to give the Failure
  \<^verbatim>\<open>Failed to decode JSON response\<close>, and it does when \<^verbatim>\<open>response.json()\<close> raises
  \<^verbatim>\<open>ValueError\<close> (\<open>value_error_200_fails\<close>). A body of 1200 opening brackets is not
  JSON either, but on it the decoder raises \<^verbatim>\<open>RecursionError\<close>, which
  \<^verbatim>\<open>except ValueError\<close> does not catch: the exception leaves \<^verbatim>\<open>get_weather\<close> and no
  Failure is returned.
\<close>

theorem deeply_nested_200_body_raises:
  "fst (get_weather rp API_KEY ''London''
         (simulated (Response \<lparr>status_code = 200, json = Inl RecursionError\<rparr>)))
   = Inl RecursionError"
  by (simp add: get_weather_def requests_get_def next_outcome_def simulated_def)

text \<open>
  C9. When the request meets a transport failure, \<^verbatim>\<open>get_weather\<close> returns the Failure
  whose message is \<^verbatim>\<open>Network error: \<close> followed by the text of the exception, so it
  contains \<^verbatim>\<open>Network error\<close> and that text; and it has sent that one request and no
  other.
\<close>

theorem transport_failure_is_terminal:
  assumes "next_outcome w = RequestException e"
  shows "get_weather rp API_KEY city_name w
         = (Inr [(''error'', PStr (''Network error: '' @ e))],
            w\<lparr>sent := sent w @ [\<lparr>url = BASE_URL,
                                  params = [(''q'', Some city_name), (''appid'', API_KEY),
                                            (''units'', Some ''metric'')],
                                  timeout = 10\<rparr>]\<rparr>)
         \<and> sublist ''Network error'' (''Network error: '' @ e)
         \<and> sublist e (''Network error: '' @ e)"
proof -
  have "sublist ''Network error'' (''Network error'' @ ('': '' @ e))"
    by (rule sublist_append_rightI)
  then have "sublist ''Network error'' (''Network error: '' @ e)" by simp
  moreover have "sublist e (''Network error: '' @ e)"
    by (rule sublist_append_leftI)
  moreover have "get_weather rp API_KEY city_name w
         = (Inr [(''error'', PStr (''Network error: '' @ e))],
            w\<lparr>sent := sent w @ [\<lparr>url = BASE_URL,
                                  params = [(''q'', Some city_name), (''appid'', API_KEY),
                                            (''units'', Some ''metric'')],
                                  timeout = 10\<rparr>]\<rparr>)"
    using assms by (simp add: get_weather_def requests_get_def)
  ultimately show ?thesis by blast
qed

theorem transport_failure_is_terminal_witness:
  "next_outcome (simulated (RequestException ''Connection refused''))
     = RequestException ''Connection refused''
   \<and> get_weather (\<lambda>v. []) (Some ''key'') ''London''
        (simulated (RequestException ''Connection refused''))
     = (Inr [(''error'', PStr ''Network error: Connection refused'')],
        \<lparr>outcomes = (\<lambda>n. RequestException ''Connection refused''),
         sent = [\<lparr>url = BASE_URL,
                  params = [(''q'', Some ''London''), (''appid'', Some ''key''),
                            (''units'', Some ''metric'')],
                  timeout = 10\<rparr>]\<rparr>)"
  using transport_failure_is_terminal
    [of "simulated (RequestException ''Connection refused'')" "''Connection refused''"
        "\<lambda>v. []" "Some ''key''" "''London''"]
  by (simp add: next_outcome_def simulated_def)

section \<open>A name that is null\<close>

text \<open>
  C10. For a response with status 200 whose JSON object has \<^verbatim>\<open>name\<close> mapped to
  \<^verbatim>\<open>null\<close>, every Success \<^verbatim>\<open>get_weather\<close> returns has the city \<^verbatim>\<open>None\<close> and not the city
  name it was called with, and it does return one when the rest of the payload is
  typed as the extraction needs: the default of \<^verbatim>\<open>data.get("name", city_name)\<close> is used
  only when the key is missing.
\<close>

theorem null_name_gives_null_city:
  assumes "next_outcome w = Response r" and "status_code r = 200"
    and "json r = Inr (PDict d)" and "map_of d ''name'' = Some PNone"
  shows "(typed_payload d \<longrightarrow> (\<exists>res. fst (get_weather rp API_KEY city_name w) = Inr res))
         \<and> (\<forall>res. fst (get_weather rp API_KEY city_name w) = Inr res \<longrightarrow>
                is_Success res \<and> map_of res ''city'' = Some PNone
                \<and> map_of res ''city'' \<noteq> Some (PStr city_name))"
proof (cases "typed_payload d")
  case True
  from typed_payload_report [OF assms(1-3) True]
  have "fst (get_weather rp API_KEY city_name w) = Inr (report city_name d)" .
  moreover have "map_of (report city_name d) ''city'' = Some PNone"
    using assms(4) by (simp add: report_def dict_get_def)
  ultimately show ?thesis using report_is_Success by auto
next
  case False
  have "\<exists>e. fst (get_weather rp API_KEY city_name w) = Inl e"
    by (rule untyped_payload_raises [OF assms(1-3) False])
  with False show ?thesis by auto
qed

theorem null_name_gives_null_city_witness:
  "\<exists>res. fst (get_weather (\<lambda>v. []) (Some ''key'') ''London''
            (simulated (Response \<lparr>status_code = 200,
                                  json = Inr (PDict [(''name'', PNone)])\<rparr>))) = Inr res
     \<and> is_Success res \<and> map_of res ''city'' = Some PNone
     \<and> map_of res ''city'' \<noteq> Some (PStr ''London'')"
  using null_name_gives_null_city
    [of "simulated (Response \<lparr>status_code = 200, json = Inr (PDict [(''name'', PNone)])\<rparr>)"
        "\<lparr>status_code = 200, json = Inr (PDict [(''name'', PNone)])\<rparr>"
        "[(''name'', PNone)]" "\<lambda>v. []" "Some ''key''" "''London''"]
  by (auto simp add: next_outcome_def simulated_def typed_payload_def dict_get_def)

end
